theory Spec2Isabelle
  imports Complex_Main "HOL-Library.Word"
begin

section \<open>Python values used by the server\<close>

text \<open>
  The service is one Python module, \<^verbatim>\<open>services/whisper-server.py\<close>: a POST handler
  \<^verbatim>\<open>transcribe\<close> and a GET handler \<^verbatim>\<open>health\<close> over three module-level
  configuration strings and one resident \<^verbatim>\<open>WhisperModel\<close>.

  A request body is a \<^verbatim>\<open>bytes\<close> object, a list of 8-bit words. A Python \<^verbatim>\<open>str\<close> is a
  sequence of Unicode code points, so it is a list of naturals; \<open>py\<close> turns an ASCII
  literal into such a string. Dictionary keys are always literals of the source and are
  kept as plain strings.
\<close>

type_synonym byte = "8 word"
type_synonym int16 = "16 word"
type_synonym py_str = "nat list"

definition py :: "string \<Rightarrow> py_str" where
  "py s = map of_char s"

text \<open>
  An exception object: the name of its class and what \<^verbatim>\<open>str(e)\<close> gives. Every value
  of this type stands for an instance of a subclass of \<^verbatim>\<open>Exception\<close>, which is what
  the handler's \<^verbatim>\<open>except Exception as e\<close> clause matches.
\<close>

datatype py_exception = PyException (exc_type: string) (exc_str: py_str)

datatype py_value = Str py_str | Bool bool | Float real

type_synonym py_dict = "string \<rightharpoonup> py_value"

section \<open>Decoding the request body (lines 34 and 37)\<close>

text \<open>
  \<^verbatim>\<open>np.frombuffer(audio_data, dtype=np.int16)\<close> reinterprets the buffer as consecutive
  two-byte integers in the byte order of the host, which is little-endian on the
  platforms the service runs on: the first byte of each pair is the low one. numpy
  raises \<^verbatim>\<open>ValueError\<close> when the size of the buffer is not a multiple of the item size;
  the empty buffer gives the empty array.
\<close>

fun int16_items :: "byte list \<Rightarrow> int16 list" where
  "int16_items (lo # hi # rest) = word_cat hi lo # int16_items rest"
| "int16_items _ = []"

definition frombuffer_int16 :: "byte list \<Rightarrow> py_exception + int16 list" where
  "frombuffer_int16 audio_data =
     (if length audio_data mod 2 \<noteq> 0
      then Inl (PyException ''ValueError''
                  (py ''buffer size must be a multiple of element size''))
      else Inr (int16_items audio_data))"

text \<open>
  \<^verbatim>\<open>audio_array.astype(np.float32)\<close>: every 16-bit integer is a float32 value, so the
  conversion is exact. The division by \<^verbatim>\<open>32768.0\<close>, a power of two, only changes the
  exponent and is exact as well, so the samples are modelled by the real numbers they
  denote.
\<close>

definition astype_float32 :: "int16 list \<Rightarrow> real list" where
  "astype_float32 audio_array = map (\<lambda>x. real_of_int (sint x)) audio_array"

definition decode :: "byte list \<Rightarrow> py_exception + real list" where
  "decode audio_data =
     (case frombuffer_int16 audio_data of
        Inl e \<Rightarrow> Inl e
      | Inr audio_array \<Rightarrow> Inr (map (\<lambda>x. x / 32768) (astype_float32 audio_array)))"

section \<open>The resident model\<close>

text \<open>
  \<^verbatim>\<open>faster_whisper.WhisperModel\<close> is a library outside the repository. The handler
  sees it through one call, \<^verbatim>\<open>model.transcribe(audio_float, language=..., beam_size=...,
  vad_filter=..., vad_parameters=...)\<close>, which raises or returns a pair of a generator
  of segments and an info object. The model is a parameter of everything below. The
  generator is finite and may raise instead of yielding its next segment.
\<close>

record segment =
  segment_text :: py_str

record transcription_info =
  language :: py_str
  language_probability :: real

datatype segment_gen = Stop | Yield segment segment_gen | Raise py_exception

record transcribe_kwargs =
  kw_language :: py_str
  kw_beam_size :: int
  kw_vad_filter :: bool
  kw_vad_parameters :: "(string \<times> int) list"

type_synonym whisper_model =
  "real list \<Rightarrow> transcribe_kwargs \<Rightarrow> py_exception + (segment_gen \<times> transcription_info)"

text \<open>One entry per call made to \<^verbatim>\<open>model.transcribe\<close>: the samples and the keyword arguments.\<close>

type_synonym model_call = "real list \<times> transcribe_kwargs"

section \<open>Assembling the transcript (lines 49 to 53)\<close>

text \<open>The \<^verbatim>\<open>for segment in segments\<close> loop, appending to \<^verbatim>\<open>text_parts\<close>.\<close>

fun collect_segments :: "segment_gen \<Rightarrow> py_str list \<Rightarrow> py_exception + py_str list" where
  "collect_segments Stop text_parts = Inr text_parts"
| "collect_segments (Yield seg rest) text_parts =
     collect_segments rest (text_parts @ [segment_text seg])"
| "collect_segments (Raise e) text_parts = Inl e"

text \<open>\<^verbatim>\<open>sep.join(parts)\<close>.\<close>

fun py_join :: "py_str \<Rightarrow> py_str list \<Rightarrow> py_str" where
  "py_join sep [] = []"
| "py_join sep [x] = x"
| "py_join sep (x # y # ys) = x @ sep @ py_join sep (y # ys)"

text \<open>
  \<^verbatim>\<open>str.strip()\<close> without an argument removes the code points for which
  \<^verbatim>\<open>str.isspace\<close> holds from both ends.
\<close>

definition py_isspace :: "nat \<Rightarrow> bool" where
  "py_isspace c =
     ((9 \<le> c \<and> c \<le> 13) \<or> (28 \<le> c \<and> c \<le> 32) \<or> c = 133 \<or> c = 160 \<or> c = 5760 \<or>
      (8192 \<le> c \<and> c \<le> 8202) \<or> c = 8232 \<or> c = 8233 \<or> c = 8239 \<or> c = 8287 \<or>
      c = 12288)"

definition py_strip :: "py_str \<Rightarrow> py_str" where
  "py_strip s = rev (dropWhile py_isspace (rev (dropWhile py_isspace s)))"

text \<open>
  Lines 49 to 53 together: the loop, then \<^verbatim>\<open>" ".join(text_parts).strip()\<close>. A
  generator that raises makes the whole statement sequence raise.
\<close>

definition assemble :: "segment_gen \<Rightarrow> py_exception + py_str" where
  "assemble segments =
     (case collect_segments segments [] of
        Inl e \<Rightarrow> Inl e
      | Inr text_parts \<Rightarrow> Inr (py_strip (py_join (py '' '') text_parts)))"

section \<open>The handler \<^verbatim>\<open>transcribe\<close> (lines 24 to 67)\<close>

definition transcribe_options :: transcribe_kwargs where
  "transcribe_options =
     \<lparr>kw_language = py ''en'', kw_beam_size = 5, kw_vad_filter = True,
      kw_vad_parameters = [(''min_silence_duration_ms'', 500)]\<rparr>"

text \<open>
  The body of the \<^verbatim>\<open>try\<close> block: it raises (\<open>Inl\<close>) or reaches the \<^verbatim>\<open>return\<close> with
  the success dictionary. The second component lists the calls the body made to the
  model: none when decoding raises, one otherwise.
\<close>

definition try_body ::
  "whisper_model \<Rightarrow> byte list \<Rightarrow> (py_exception + py_dict) \<times> model_call list" where
  "try_body mdl audio_data =
     (case decode audio_data of
        Inl e \<Rightarrow> (Inl e, [])
      | Inr audio_float \<Rightarrow>
          ((case mdl audio_float transcribe_options of
              Inl e \<Rightarrow> Inl e
            | Inr (segments, info) \<Rightarrow>
                (case assemble segments of
                   Inl e \<Rightarrow> Inl e
                 | Inr full_text \<Rightarrow>
                     Inr [''text'' \<mapsto> Str full_text,
                          ''is_final'' \<mapsto> Bool True,
                          ''language'' \<mapsto> Str (language info),
                          ''language_probability'' \<mapsto> Float (language_probability info)])),
           [(audio_float, transcribe_options)]))"

text \<open>The whole handler: the \<^verbatim>\<open>except Exception as e\<close> clause turns a raise into a dictionary.\<close>

definition transcribe :: "whisper_model \<Rightarrow> byte list \<Rightarrow> py_dict \<times> model_call list" where
  "transcribe mdl audio_data =
     (case try_body mdl audio_data of
        (Inr result, calls) \<Rightarrow> (result, calls)
      | (Inl e, calls) \<Rightarrow>
          ([''text'' \<mapsto> Str (py ''''),
            ''is_final'' \<mapsto> Bool True,
            ''error'' \<mapsto> Str (exc_str e)], calls))"

section \<open>The process: module-level state, \<^verbatim>\<open>health\<close>, and a run of requests\<close>

text \<open>
  The module-level names read by the handlers. They are assigned once, when the module
  is loaded (lines 15 to 20), from the environment and the model constructor; a failing
  constructor ends the process before any request is served.
\<close>

record server =
  model_size :: py_str
  device :: py_str
  compute_type :: py_str
  model :: whisper_model

definition getenv :: "(string \<rightharpoonup> py_str) \<Rightarrow> string \<Rightarrow> py_str \<Rightarrow> py_str" where
  "getenv env k dflt = (case env k of None \<Rightarrow> dflt | Some v \<Rightarrow> v)"

definition startup ::
  "(string \<rightharpoonup> py_str) \<Rightarrow> (py_str \<Rightarrow> py_str \<Rightarrow> py_str \<Rightarrow> py_exception + whisper_model)
     \<Rightarrow> py_exception + server" where
  "startup env WhisperModel =
     (let ms = getenv env ''MODEL_SIZE'' (py ''base'');
          dv = getenv env ''DEVICE'' (py ''cpu'');
          ct = getenv env ''COMPUTE_TYPE'' (py ''int8'')
      in case WhisperModel ms dv ct of
           Inl e \<Rightarrow> Inl e
         | Inr m \<Rightarrow> Inr \<lparr>model_size = ms, device = dv, compute_type = ct, model = m\<rparr>)"

definition health :: "server \<Rightarrow> py_dict" where
  "health s = [''status'' \<mapsto> Str (py ''ok''),
               ''model'' \<mapsto> Str (model_size s),
               ''device'' \<mapsto> Str (device s)]"

datatype request = PostTranscribe "byte list" | GetHealth

text \<open>
  One request against the process. Neither handler assigns a module-level name, so the
  state after the request is the state before it.
\<close>

fun handle :: "server \<Rightarrow> request \<Rightarrow> py_dict \<times> server" where
  "handle s (PostTranscribe audio_data) = (fst (transcribe (model s) audio_data), s)"
| "handle s GetHealth = (health s, s)"

fun serve :: "server \<Rightarrow> request list \<Rightarrow> py_dict list \<times> server" where
  "serve s [] = ([], s)"
| "serve s (r # rs) =
     (case handle s r of
        (resp, s') \<Rightarrow> (case serve s' rs of (resps, s'') \<Rightarrow> (resp # resps, s'')))"

section \<open>Notions used to state the properties\<close>

text \<open>
  The \<open>i\<close>-th little-endian signed 16-bit integer of a buffer, written out with integer
  arithmetic: low byte first, two's complement.
\<close>

definition le_int16 :: "byte list \<Rightarrow> nat \<Rightarrow> int" where
  "le_int16 buf i =
     (let u = uint (buf ! (2 * i)) + 256 * uint (buf ! (2 * i + 1))
      in if u < 32768 then u else u - 65536)"

text \<open>A generator that yields the given segments in order and then stops.\<close>

fun yielding :: "segment list \<Rightarrow> segment_gen" where
  "yielding [] = Stop"
| "yielding (seg # segs) = Yield seg (yielding segs)"


section \<open>Decoding: facts about \<open>decode\<close>\<close>

lemma uint_word_cat_bytes:
  "uint (word_cat (hi :: byte) (lo :: byte) :: int16) = uint lo + 256 * uint hi"
proof -
  have lo: "0 \<le> uint lo" "uint lo < 256" using uint_lt2p [of lo] by simp_all
  have hi: "0 \<le> uint hi" "uint hi < 256" using uint_lt2p [of hi] by simp_all
  have "uint (word_cat hi lo :: int16) = take_bit 16 (concat_bit 8 (uint lo) (uint hi))"
    by (simp add: word_cat_eq' uint_word_of_int_eq)
  also have "concat_bit 8 (uint lo) (uint hi) = uint lo + 256 * uint hi"
    using lo by (simp add: concat_bit_eq take_bit_int_eq_self push_bit_eq_mult)
  also have "take_bit 16 (uint lo + 256 * uint hi) = uint lo + 256 * uint hi"
    using lo hi by (simp add: take_bit_int_eq_self)
  finally show ?thesis .
qed

lemma sint_int16_uint:
  "sint (w :: int16) = (if uint w < 32768 then uint w else uint w - 65536)"
proof -
  have b: "0 \<le> uint w" "uint w < 65536" using uint_lt2p [of w] by simp_all
  have s: "sint w = (uint w + 32768) mod 65536 - 32768"
    by (simp add: sint_uint signed_take_bit_eq_take_bit_shift take_bit_eq_mod)
  show ?thesis
  proof (cases "uint w < 32768")
    case True
    with b have "(uint w + 32768) mod 65536 = uint w + 32768"
      by (intro mod_pos_pos_trivial) simp_all
    with True s show ?thesis by simp
  next
    case False
    have "uint w + 32768 = (uint w - 32768) + 65536"
      by arith
    then have "(uint w + 32768) mod 65536 = ((uint w - 32768) + 65536) mod 65536"
      by (rule arg_cong)
    also have "\<dots> = (uint w - 32768) mod 65536"
      by (rule mod_add_self2)
    also from False b have "\<dots> = uint w - 32768"
      by (intro mod_pos_pos_trivial) simp_all
    finally show ?thesis using False s by simp
  qed
qed

lemma sint_word_cat_bytes:
  "sint (word_cat (hi :: byte) (lo :: byte) :: int16) =
     (let u = uint lo + 256 * uint hi in if u < 32768 then u else u - 65536)"
  by (simp add: sint_int16_uint uint_word_cat_bytes Let_def)

lemma sint_int16_bounds: "- 32768 \<le> sint (w :: int16)" "sint (w :: int16) \<le> 32767"
  using sint_ge [of w] sint_lt [of w] by simp_all

lemma length_int16_items: "length (int16_items buf) = length buf div 2"
  by (induction buf rule: int16_items.induct) simp_all

lemma nth_int16_items:
  "i < length buf div 2 \<Longrightarrow> int16_items buf ! i = word_cat (buf ! (2 * i + 1)) (buf ! (2 * i))"
proof (induction buf arbitrary: i rule: int16_items.induct)
  case (1 lo hi rest)
  then show ?case by (cases i) simp_all
qed simp_all

lemma sint_nth_int16_items:
  "i < length buf div 2 \<Longrightarrow> sint (int16_items buf ! i) = le_int16 buf i"
  by (simp add: nth_int16_items sint_word_cat_bytes le_int16_def)

lemma decode_even:
  "even (length buf) \<Longrightarrow>
     decode buf = Inr (map (\<lambda>w. real_of_int (sint w) / 32768) (int16_items buf))"
  by (simp add: decode_def frombuffer_int16_def astype_float32_def even_iff_mod_2_eq_zero
      del: of_int_sint)

lemma decode_odd:
  "odd (length buf) \<Longrightarrow>
     decode buf = Inl (PyException ''ValueError''
                         (py ''buffer size must be a multiple of element size''))"
  by (simp add: decode_def frombuffer_int16_def odd_iff_mod_2_eq_one)

lemma decode_Inr_nth:
  assumes "decode buf = Inr samples" and "i < length samples"
  shows "samples ! i = real_of_int (sint (int16_items buf ! i)) / 32768"
    and "i < length buf div 2"
  using assms
  by (auto simp: decode_def frombuffer_int16_def astype_float32_def length_int16_items
      simp del: of_int_sint split: if_splits)

text \<open>
  Claim C2. For every byte buffer of even length \<open>n\<close>, decoding succeeds with \<open>n div 2\<close>
  samples; the \<open>i\<close>-th sample is the \<open>i\<close>-th little-endian signed 16-bit integer of the
  buffer divided by 32768, and lies between \<open>-1\<close> and \<open>1\<close>.
\<close>

theorem decode_even_length:
  assumes "even (length buf)"
  shows "\<exists>samples. decode buf = Inr samples \<and> length samples = length buf div 2 \<and>
           (\<forall>i < length samples.
              samples ! i = real_of_int (le_int16 buf i) / 32768 \<and>
              - 1 \<le> samples ! i \<and> samples ! i \<le> 1)"
proof -
  let ?samples = "map (\<lambda>w. real_of_int (sint w) / 32768) (int16_items buf)"
  have d: "decode buf = Inr ?samples"
    using assms by (rule decode_even)
  have len: "length ?samples = length buf div 2"
    by (simp add: length_int16_items)
  have "?samples ! i = real_of_int (le_int16 buf i) / 32768 \<and>
        - 1 \<le> ?samples ! i \<and> ?samples ! i \<le> 1" if "i < length ?samples" for i
  proof -
    from that have i: "i < length buf div 2" by (simp add: length_int16_items)
    then have eq: "?samples ! i = real_of_int (le_int16 buf i) / 32768"
      by (simp add: length_int16_items sint_nth_int16_items del: of_int_sint)
    have "- 32768 \<le> sint (int16_items buf ! i)" "sint (int16_items buf ! i) \<le> 32767"
      by (rule sint_int16_bounds)+
    with i have "- 32768 \<le> le_int16 buf i" "le_int16 buf i \<le> 32767"
      by (simp_all add: sint_nth_int16_items)
    then have "- 1 \<le> real_of_int (le_int16 buf i) / 32768"
      "real_of_int (le_int16 buf i) / 32768 \<le> 1"
      by simp_all
    with eq show ?thesis by simp
  qed
  with d len show ?thesis by blast
qed

theorem decode_even_length_witness:
  "even (length [0, 128, 255, 127, 0, 64 :: byte]) \<and>
   (\<exists>samples. decode [0, 128, 255, 127, 0, 64] = Inr samples \<and> length samples = 3 \<and>
      samples ! 0 = - 1 \<and> samples ! 1 = 32767 / 32768 \<and> samples ! 2 = 1 / 2)"
proof -
  let ?buf = "[0, 128, 255, 127, 0, 64 :: byte]"
  have e: "even (length ?buf)" by simp
  from decode_even_length [OF e] obtain samples where
    d: "decode ?buf = Inr samples" and len: "length samples = length ?buf div 2" and
    nth: "\<And>i. i < length samples \<Longrightarrow> samples ! i = real_of_int (le_int16 ?buf i) / 32768"
    by blast
  from len have l3: "length samples = 3" by simp
  have "samples ! 0 = - 1"
    using nth [of 0] l3 by (simp add: le_int16_def)
  moreover have "samples ! 1 = 32767 / 32768"
    using nth [of 1] l3 by (simp add: le_int16_def)
  moreover have "samples ! 2 = 1 / 2"
    using nth [of 2] l3 by (simp add: le_int16_def)
  ultimately show ?thesis using e d l3 by blast
qed

text \<open>
  Claim C9. The range of a decoded sample is tighter than \<open>[-1, 1]\<close>: it lies between
  \<open>-1\<close> and \<open>32767 / 32768\<close>, it is never \<open>1\<close>, and it is \<open>-1\<close> exactly when the
  16-bit input sample is \<open>-32768\<close>.
\<close>

theorem decoded_sample_range:
  assumes "even (length buf)" and "decode buf = Inr samples" and "i < length samples"
  shows "- 1 \<le> samples ! i \<and> samples ! i \<le> 32767 / 32768 \<and> samples ! i \<noteq> 1 \<and>
         (samples ! i = - 1 \<longleftrightarrow> le_int16 buf i = - 32768) \<and>
         (samples ! i = - 1 \<longleftrightarrow> sint (int16_items buf ! i) = - 32768)"
proof -
  let ?k = "sint (int16_items buf ! i)"
  from assms(2,3) have s: "samples ! i = real_of_int ?k / 32768" and i: "i < length buf div 2"
    by (rule decode_Inr_nth)+
  have b: "- 32768 \<le> ?k" "?k \<le> 32767"
    by (rule sint_int16_bounds)+
  have le: "le_int16 buf i = ?k"
    using i by (simp add: sint_nth_int16_items)
  from b have "- 1 \<le> real_of_int ?k / 32768" "real_of_int ?k / 32768 \<le> 32767 / 32768"
    by (simp_all del: of_int_sint)
  moreover from b have "real_of_int ?k / 32768 \<noteq> 1" by (simp del: of_int_sint)
  moreover have "real_of_int ?k / 32768 = - 1 \<longleftrightarrow> ?k = - 32768"
    by (auto simp del: of_int_sint)
  ultimately show ?thesis unfolding s le by blast
qed

theorem decoded_sample_range_witness:
  "even (length [0, 128, 255, 127 :: byte]) \<and>
   decode [0, 128, 255, 127] = Inr [- 1, 32767 / 32768] \<and>
   (0 :: nat) < length [- 1, 32767 / 32768 :: real] \<and>
   le_int16 [0, 128, 255, 127] 0 = - 32768 \<and>
   [- 1, 32767 / 32768 :: real] ! 0 = - 1 \<and>
   [- 1, 32767 / 32768 :: real] ! 0 \<le> 32767 / 32768"
proof -
  let ?buf = "[0, 128, 255, 127 :: byte]"
  let ?samples = "[- 1, 32767 / 32768 :: real]"
  have e: "even (length ?buf)" by simp
  have d: "decode ?buf = Inr ?samples"
    by (simp add: decode_def frombuffer_int16_def astype_float32_def sint_word_cat_bytes
        del: of_int_sint)
  have i: "(0 :: nat) < length ?samples" by simp
  from decoded_sample_range [OF e d i] e d i show ?thesis
    by (simp add: le_int16_def)
qed

section \<open>The handler: every request gets a structured answer\<close>

lemma py_empty: "py '''' = []"
  by (simp add: py_def)

lemma transcribe_decode_Inl:
  "decode audio_data = Inl e \<Longrightarrow>
     transcribe mdl audio_data =
       ([''text'' \<mapsto> Str [], ''is_final'' \<mapsto> Bool True, ''error'' \<mapsto> Str (exc_str e)], [])"
  by (simp add: transcribe_def try_body_def py_empty)

lemma transcribe_model_Inl:
  "decode audio_data = Inr samples \<Longrightarrow> mdl samples transcribe_options = Inl e \<Longrightarrow>
     transcribe mdl audio_data =
       ([''text'' \<mapsto> Str [], ''is_final'' \<mapsto> Bool True, ''error'' \<mapsto> Str (exc_str e)],
        [(samples, transcribe_options)])"
  by (simp add: transcribe_def try_body_def py_empty)

lemma transcribe_assemble_Inl:
  "decode audio_data = Inr samples \<Longrightarrow> mdl samples transcribe_options = Inr (segments, info) \<Longrightarrow>
   assemble segments = Inl e \<Longrightarrow>
     transcribe mdl audio_data =
       ([''text'' \<mapsto> Str [], ''is_final'' \<mapsto> Bool True, ''error'' \<mapsto> Str (exc_str e)],
        [(samples, transcribe_options)])"
  by (simp add: transcribe_def try_body_def py_empty)

lemma transcribe_success:
  "decode audio_data = Inr samples \<Longrightarrow> mdl samples transcribe_options = Inr (segments, info) \<Longrightarrow>
   assemble segments = Inr full_text \<Longrightarrow>
     transcribe mdl audio_data =
       ([''text'' \<mapsto> Str full_text, ''is_final'' \<mapsto> Bool True,
         ''language'' \<mapsto> Str (language info),
         ''language_probability'' \<mapsto> Float (language_probability info)],
        [(samples, transcribe_options)])"
  by (simp add: transcribe_def try_body_def)


lemma dom_failed:
  "dom [''text'' \<mapsto> Str [], ''is_final'' \<mapsto> Bool True, ''error'' \<mapsto> Str msg] =
     {''text'', ''is_final'', ''error''}"
  by (simp add: insert_commute)

lemma dom_success:
  "dom [''text'' \<mapsto> Str full_text, ''is_final'' \<mapsto> Bool True,
        ''language'' \<mapsto> Str lang, ''language_probability'' \<mapsto> Float p] =
     {''text'', ''is_final'', ''language'', ''language_probability''}"
  by (simp add: insert_commute)

lemmas decode_eval =
  decode_def frombuffer_int16_def astype_float32_def sint_word_cat_bytes

lemmas assemble_eval =
  assemble_def py_strip_def py_isspace_def py_def

text \<open>
  Claim C1. For every request body and every model, the handler returns a dictionary and
  nothing else. When decoding raises, when the model call raises, or when the segment
  generator raises, the dictionary is exactly \<open>text = ""\<close>, \<open>is_final = True\<close>,
  \<open>error = str(e)\<close>, with no \<open>language\<close> and no \<open>language_probability\<close>; otherwise it
  has exactly the keys \<open>text\<close>, \<open>is_final = True\<close>, \<open>language\<close> and
  \<open>language_probability\<close>, and no \<open>error\<close>.
\<close>

theorem transcribe_structured_result:
  "(case decode audio_data of
      Inl e \<Rightarrow>
        fst (transcribe mdl audio_data) =
          [''text'' \<mapsto> Str [], ''is_final'' \<mapsto> Bool True, ''error'' \<mapsto> Str (exc_str e)]
    | Inr samples \<Rightarrow>
        (case mdl samples transcribe_options of
           Inl e \<Rightarrow>
             fst (transcribe mdl audio_data) =
               [''text'' \<mapsto> Str [], ''is_final'' \<mapsto> Bool True, ''error'' \<mapsto> Str (exc_str e)]
         | Inr (segments, info) \<Rightarrow>
             (case assemble segments of
                Inl e \<Rightarrow>
                  fst (transcribe mdl audio_data) =
                    [''text'' \<mapsto> Str [], ''is_final'' \<mapsto> Bool True,
                     ''error'' \<mapsto> Str (exc_str e)]
              | Inr full_text \<Rightarrow>
                  fst (transcribe mdl audio_data) =
                    [''text'' \<mapsto> Str full_text, ''is_final'' \<mapsto> Bool True,
                     ''language'' \<mapsto> Str (language info),
                     ''language_probability'' \<mapsto> Float (language_probability info)]))) \<and>
   ((\<exists>msg. fst (transcribe mdl audio_data) =
             [''text'' \<mapsto> Str [], ''is_final'' \<mapsto> Bool True, ''error'' \<mapsto> Str msg] \<and>
           dom (fst (transcribe mdl audio_data)) = {''text'', ''is_final'', ''error''}) \<or>
    (\<exists>full_text lang p.
        fst (transcribe mdl audio_data) =
          [''text'' \<mapsto> Str full_text, ''is_final'' \<mapsto> Bool True,
           ''language'' \<mapsto> Str lang, ''language_probability'' \<mapsto> Float p] \<and>
        dom (fst (transcribe mdl audio_data)) =
          {''text'', ''is_final'', ''language'', ''language_probability''}))"
  (is "?outcome \<and> (?failed \<or> ?succeeded)")
proof -
  let ?R = "fst (transcribe mdl audio_data)"
  have failed: "?failed"
    if "?R = [''text'' \<mapsto> Str [], ''is_final'' \<mapsto> Bool True, ''error'' \<mapsto> Str msg]" for msg
  proof -
    from that have "dom ?R = {''text'', ''is_final'', ''error''}"
      by (simp only: dom_failed)
    with that show ?thesis by blast
  qed
  have succeeded: "?succeeded"
    if "?R = [''text'' \<mapsto> Str t, ''is_final'' \<mapsto> Bool True,
              ''language'' \<mapsto> Str l, ''language_probability'' \<mapsto> Float p]" for t l p
  proof -
    from that have "dom ?R = {''text'', ''is_final'', ''language'', ''language_probability''}"
      by (simp only: dom_success)
    with that show ?thesis by blast
  qed
  show ?thesis
  proof (cases "decode audio_data")
    case (Inl e)
    have r: "?R = [''text'' \<mapsto> Str [], ''is_final'' \<mapsto> Bool True, ''error'' \<mapsto> Str (exc_str e)]"
      by (simp only: transcribe_decode_Inl [where mdl = mdl, OF Inl] fst_conv)
    then have "?outcome" by (simp only: Inl sum.case)
    with failed [OF r] show ?thesis by blast
  next
    case (Inr samples)
    note d = this
    show ?thesis
    proof (cases "mdl samples transcribe_options")
      case (Inl e)
      have r: "?R = [''text'' \<mapsto> Str [], ''is_final'' \<mapsto> Bool True, ''error'' \<mapsto> Str (exc_str e)]"
        by (simp only: transcribe_model_Inl [where mdl = mdl, OF d Inl] fst_conv)
      then have "?outcome" by (simp only: d Inl sum.case)
      with failed [OF r] show ?thesis by blast
    next
      case (Inr r)
      obtain segments info where "r = (segments, info)" by (cases r)
      with Inr have m: "mdl samples transcribe_options = Inr (segments, info)" by simp
      show ?thesis
      proof (cases "assemble segments")
        case (Inl e)
        have r: "?R = [''text'' \<mapsto> Str [], ''is_final'' \<mapsto> Bool True,
                       ''error'' \<mapsto> Str (exc_str e)]"
          by (simp only: transcribe_assemble_Inl [where mdl = mdl, OF d m Inl] fst_conv)
        then have "?outcome" by (simp only: d m Inl sum.case prod.case)
        with failed [OF r] show ?thesis by blast
      next
        case (Inr full_text)
        have r: "?R = [''text'' \<mapsto> Str full_text, ''is_final'' \<mapsto> Bool True,
                       ''language'' \<mapsto> Str (language info),
                       ''language_probability'' \<mapsto> Float (language_probability info)]"
          by (simp only: transcribe_success [where mdl = mdl, OF d m Inr] fst_conv)
        then have "?outcome" by (simp only: d m Inr sum.case prod.case)
        with succeeded [OF r] show ?thesis by blast
      qed
    qed
  qed
qed

theorem transcribe_structured_result_witness:
  "fst (transcribe
     (\<lambda>samples kw. Inr (Yield \<lparr>segment_text = py '' hi''\<rparr> Stop,
                         \<lparr>language = py ''fr'', language_probability = 1 / 2\<rparr>))
     [0, 128]) =
   [''text'' \<mapsto> Str (py ''hi''), ''is_final'' \<mapsto> Bool True,
    ''language'' \<mapsto> Str (py ''fr''), ''language_probability'' \<mapsto> Float (1 / 2)] \<and>
   fst (transcribe
     (\<lambda>samples kw. Inl (PyException ''RuntimeError'' (py ''device fault'')))
     [0, 128]) =
   [''text'' \<mapsto> Str [], ''is_final'' \<mapsto> Bool True, ''error'' \<mapsto> Str (py ''device fault'')] \<and>
   fst (transcribe
     (\<lambda>samples kw. Inr (Yield \<lparr>segment_text = py ''par''\<rparr>
                           (Raise (PyException ''RuntimeError'' (py ''decoder fault''))),
                         \<lparr>language = py ''fr'', language_probability = 1 / 2\<rparr>))
     [0, 128]) =
   [''text'' \<mapsto> Str [], ''is_final'' \<mapsto> Bool True, ''error'' \<mapsto> Str (py ''decoder fault'')]"
  (is "fst (transcribe ?M1 ?b) = ?r1 \<and> fst (transcribe ?M2 ?b) = ?r2 \<and>
       fst (transcribe ?M3 ?b) = ?r3")
proof -
  have d: "decode ?b = Inr [- 1]"
    by (simp add: decode_eval del: of_int_sint)
  have a1: "assemble (Yield \<lparr>segment_text = py '' hi''\<rparr> Stop) = Inr (py ''hi'')"
    by (simp add: assemble_eval)
  have a3: "assemble (Yield \<lparr>segment_text = py ''par''\<rparr>
                           (Raise (PyException ''RuntimeError'' (py ''decoder fault'')))) =
            Inl (PyException ''RuntimeError'' (py ''decoder fault''))"
    by (simp add: assemble_def)
  from transcribe_structured_result [where mdl = ?M1 and audio_data = ?b, THEN conjunct1]
  have "fst (transcribe ?M1 ?b) = ?r1" by (simp add: d a1)
  moreover
  from transcribe_structured_result [where mdl = ?M2 and audio_data = ?b, THEN conjunct1]
  have "fst (transcribe ?M2 ?b) = ?r2" by (simp add: d)
  moreover
  from transcribe_structured_result [where mdl = ?M3 and audio_data = ?b, THEN conjunct1]
  have "fst (transcribe ?M3 ?b) = ?r3" by (simp add: d a3)
  ultimately show ?thesis by blast
qed

text \<open>
  Claim C3. For every buffer of odd length, decoding raises (numpy's \<open>ValueError\<close>, the
  failure the specification names \<open>MalformedAudioError\<close>) and returns no samples; the
  handler answers with empty text, \<open>is_final = True\<close> and the message, and has made no
  call to the model.
\<close>

theorem odd_length_fails:
  assumes "odd (length audio_data)"
  shows "decode audio_data =
           Inl (PyException ''ValueError''
                  (py ''buffer size must be a multiple of element size'')) \<and>
         transcribe mdl audio_data =
           ([''text'' \<mapsto> Str [], ''is_final'' \<mapsto> Bool True,
             ''error'' \<mapsto> Str (py ''buffer size must be a multiple of element size'')], [])"
proof -
  have d: "decode audio_data =
             Inl (PyException ''ValueError''
                    (py ''buffer size must be a multiple of element size''))"
    using assms by (rule decode_odd)
  from transcribe_decode_Inl [where mdl = mdl, OF d] d show ?thesis
    by (simp only: py_exception.sel simp_thms)
qed

theorem odd_length_fails_witness:
  "odd (length [1, 2, 3 :: byte]) \<and>
   transcribe
     (\<lambda>samples kw. Inr (Yield \<lparr>segment_text = py ''hi''\<rparr> Stop,
                         \<lparr>language = py ''en'', language_probability = 1\<rparr>))
     [1, 2, 3] =
   ([''text'' \<mapsto> Str [], ''is_final'' \<mapsto> Bool True,
     ''error'' \<mapsto> Str (py ''buffer size must be a multiple of element size'')], [])"
proof -
  have o: "odd (length [1, 2, 3 :: byte])" by simp
  from odd_length_fails [OF o] o show ?thesis by blast
qed




text \<open>
  Claim C6. A request whose buffer decodes makes exactly one call to the model, on the
  decoded samples, with \<open>language="en"\<close>, \<open>beam_size=5\<close>, \<open>vad_filter=True\<close> and
  \<open>vad_parameters = {min_silence_duration_ms: 500}\<close>; a request whose buffer does not
  decode makes none. On success the answer carries the language and the probability of
  the info object the model returned, whatever language was forced.
\<close>

theorem model_called_with_fixed_options:
  "snd (transcribe mdl audio_data) =
     (case decode audio_data of
        Inl e \<Rightarrow> []
      | Inr samples \<Rightarrow>
          [(samples,
            \<lparr>kw_language = py ''en'', kw_beam_size = 5, kw_vad_filter = True,
             kw_vad_parameters = [(''min_silence_duration_ms'', 500)]\<rparr>)]) \<and>
   (\<forall>samples segments info full_text.
      decode audio_data = Inr samples \<longrightarrow>
      mdl samples
        \<lparr>kw_language = py ''en'', kw_beam_size = 5, kw_vad_filter = True,
         kw_vad_parameters = [(''min_silence_duration_ms'', 500)]\<rparr> = Inr (segments, info) \<longrightarrow>
      assemble segments = Inr full_text \<longrightarrow>
        fst (transcribe mdl audio_data) ''language'' = Some (Str (language info)) \<and>
        fst (transcribe mdl audio_data) ''language_probability'' =
          Some (Float (language_probability info)))"
  (is "?calls \<and> ?carried")
proof
  show ?calls
    by (cases "decode audio_data")
      (simp_all add: transcribe_def try_body_def transcribe_options_def split: sum.split prod.split)
next
  show ?carried
  proof (intro allI impI)
    fix samples segments info full_text
    assume d: "decode audio_data = Inr samples"
      and m: "mdl samples
        \<lparr>kw_language = py ''en'', kw_beam_size = 5, kw_vad_filter = True,
         kw_vad_parameters = [(''min_silence_duration_ms'', 500)]\<rparr> = Inr (segments, info)"
      and a: "assemble segments = Inr full_text"
    from m have m': "mdl samples transcribe_options = Inr (segments, info)"
      by (simp only: transcribe_options_def)
    show "fst (transcribe mdl audio_data) ''language'' = Some (Str (language info)) \<and>
        fst (transcribe mdl audio_data) ''language_probability'' =
          Some (Float (language_probability info))"
      unfolding transcribe_success [where mdl = mdl, OF d m' a] by simp
  qed
qed

theorem model_called_with_fixed_options_witness:
  "decode [0, 128] = Inr [- 1] \<and>
   snd (transcribe
     (\<lambda>samples kw.
        if kw_language kw = py ''en'' \<and> kw_beam_size kw = 5 \<and> kw_vad_filter kw \<and>
           kw_vad_parameters kw = [(''min_silence_duration_ms'', 500)]
        then Inr (Yield \<lparr>segment_text = py ''bonjour''\<rparr> Stop,
                  \<lparr>language = py ''fr'', language_probability = 1 / 4\<rparr>)
        else Inl (PyException ''TypeError'' (py ''unexpected options'')))
     [0, 128]) =
     [([- 1], \<lparr>kw_language = py ''en'', kw_beam_size = 5, kw_vad_filter = True,
              kw_vad_parameters = [(''min_silence_duration_ms'', 500)]\<rparr>)] \<and>
   fst (transcribe
     (\<lambda>samples kw.
        if kw_language kw = py ''en'' \<and> kw_beam_size kw = 5 \<and> kw_vad_filter kw \<and>
           kw_vad_parameters kw = [(''min_silence_duration_ms'', 500)]
        then Inr (Yield \<lparr>segment_text = py ''bonjour''\<rparr> Stop,
                  \<lparr>language = py ''fr'', language_probability = 1 / 4\<rparr>)
        else Inl (PyException ''TypeError'' (py ''unexpected options'')))
     [0, 128]) ''language'' = Some (Str (py ''fr'')) \<and>
   fst (transcribe
     (\<lambda>samples kw.
        if kw_language kw = py ''en'' \<and> kw_beam_size kw = 5 \<and> kw_vad_filter kw \<and>
           kw_vad_parameters kw = [(''min_silence_duration_ms'', 500)]
        then Inr (Yield \<lparr>segment_text = py ''bonjour''\<rparr> Stop,
                  \<lparr>language = py ''fr'', language_probability = 1 / 4\<rparr>)
        else Inl (PyException ''TypeError'' (py ''unexpected options'')))
     [0, 128]) ''language_probability'' = Some (Float (1 / 4))"
  (is "?d \<and> snd (transcribe ?M ?b) = ?c \<and> ?l \<and> ?p")
proof -
  have d: "decode ?b = Inr [- 1]"
    by (simp add: decode_eval del: of_int_sint)
  have m: "?M [- 1]
        \<lparr>kw_language = py ''en'', kw_beam_size = 5, kw_vad_filter = True,
         kw_vad_parameters = [(''min_silence_duration_ms'', 500)]\<rparr> =
      Inr (Yield \<lparr>segment_text = py ''bonjour''\<rparr> Stop,
           \<lparr>language = py ''fr'', language_probability = 1 / 4\<rparr>)"
    by simp
  have a: "assemble (Yield \<lparr>segment_text = py ''bonjour''\<rparr> Stop) = Inr (py ''bonjour'')"
    by (simp add: assemble_eval)
  note t = model_called_with_fixed_options [where mdl = ?M and audio_data = ?b]
  from t [THEN conjunct1] d have "snd (transcribe ?M ?b) = ?c"
    by (simp only: sum.case)
  moreover from t [THEN conjunct2, rule_format, OF d m a] have "?l \<and> ?p"
    by simp
  ultimately show ?thesis using d by blast
qed

section \<open>Assembling: join and strip\<close>

lemma collect_segments_yielding:
  "collect_segments (yielding segs) text_parts = Inr (text_parts @ map segment_text segs)"
  by (induction segs arbitrary: text_parts) simp_all

lemma assemble_yielding:
  "assemble (yielding segs) = Inr (py_strip (py_join (py '' '') (map segment_text segs)))"
  by (simp add: assemble_def collect_segments_yielding)

lemma py_join_concat:
  "parts \<noteq> [] \<Longrightarrow> sep @ py_join sep parts = concat (map (\<lambda>t. sep @ t) parts)"
  by (induction sep parts rule: py_join.induct) simp_all

lemma rev_dropWhile_rev_split:
  "rev (dropWhile P (rev xs)) @ rev (takeWhile P (rev xs)) = xs"
proof -
  have "rev (takeWhile P (rev xs) @ dropWhile P (rev xs)) = rev (rev xs)"
    by (simp only: takeWhile_dropWhile_id)
  then show ?thesis
    by (simp only: rev_append rev_rev_ident)
qed

lemma py_strip_split:
  "py_strip s @ rev (takeWhile py_isspace (rev (dropWhile py_isspace s))) =
     dropWhile py_isspace s"
  unfolding py_strip_def by (rule rev_dropWhile_rev_split)

lemma py_strip_decompose:
  "\<exists>pre suf. s = pre @ py_strip s @ suf \<and>
     (\<forall>c \<in> set pre. py_isspace c) \<and> (\<forall>c \<in> set suf. py_isspace c)"
proof -
  let ?d = "dropWhile py_isspace s"
  let ?pre = "takeWhile py_isspace s"
  let ?suf = "rev (takeWhile py_isspace (rev ?d))"
  have "s = ?pre @ ?d" by simp
  then have "s = ?pre @ py_strip s @ ?suf"
    by (simp only: py_strip_split)
  moreover have "\<forall>c \<in> set ?pre. py_isspace c"
    by (auto dest: set_takeWhileD)
  moreover have "\<forall>c \<in> set ?suf. py_isspace c"
    by (auto dest: set_takeWhileD)
  ultimately show ?thesis by blast
qed

lemma py_strip_ends:
  assumes "py_strip s \<noteq> []"
  shows "\<not> py_isspace (hd (py_strip s))" and "\<not> py_isspace (last (py_strip s))"
proof -
  let ?d = "dropWhile py_isspace s"
  let ?e = "dropWhile py_isspace (rev ?d)"
  from assms have e: "?e \<noteq> []"
    by (simp only: py_strip_def rev_is_Nil_conv not_False_eq_True)
  then have "\<not> py_isspace (hd ?e)" by (rule hd_dropWhile)
  moreover have "last (rev ?e) = hd ?e" by (simp only: last_rev)
  ultimately show "\<not> py_isspace (last (py_strip s))"
    unfolding py_strip_def by simp
  have d: "?d \<noteq> []"
  proof
    assume a: "?d = []"
    have "py_strip s = rev (dropWhile py_isspace (rev ?d))"
      by (simp only: py_strip_def)
    also have "\<dots> = rev (dropWhile py_isspace (rev []))"
      by (simp only: a)
    also have "\<dots> = []" by simp
    finally show False using assms by simp
  qed
  then have nd: "\<not> py_isspace (hd ?d)" by (rule hd_dropWhile)
  have "hd (py_strip s @ rev (takeWhile py_isspace (rev ?d))) = hd ?d"
    by (simp only: py_strip_split)
  with assms have "hd ?d = hd (py_strip s)" by simp
  with nd show "\<not> py_isspace (hd (py_strip s))" by simp
qed

text \<open>
  Claim C5. For every finite sequence of segments, assembly gives the segments' texts in
  the order received, joined with one space (the join, with one more space in front, is
  the concatenation of every text preceded by a space), with the whitespace at both ends
  removed: what is cut off on either side is whitespace only, and a non-empty result
  neither starts nor ends with whitespace. The texts \<open>hello\<close>, \<open>world\<close> give
  \<open>hello world\<close>, and no segment gives the empty string.
\<close>

theorem assemble_joins_and_strips:
  "assemble (yielding segs) = Inr (py_strip (py_join (py '' '') (map segment_text segs))) \<and>
   (segs \<noteq> [] \<longrightarrow>
      py '' '' @ py_join (py '' '') (map segment_text segs) =
        concat (map (\<lambda>seg. py '' '' @ segment_text seg) segs)) \<and>
   (\<exists>pre suf.
      py_join (py '' '') (map segment_text segs) =
        pre @ py_strip (py_join (py '' '') (map segment_text segs)) @ suf \<and>
      (\<forall>c \<in> set pre. py_isspace c) \<and> (\<forall>c \<in> set suf. py_isspace c)) \<and>
   (py_strip (py_join (py '' '') (map segment_text segs)) \<noteq> [] \<longrightarrow>
      \<not> py_isspace (hd (py_strip (py_join (py '' '') (map segment_text segs)))) \<and>
      \<not> py_isspace (last (py_strip (py_join (py '' '') (map segment_text segs))))) \<and>
   assemble (yielding [\<lparr>segment_text = py ''hello''\<rparr>, \<lparr>segment_text = py ''world''\<rparr>]) =
     Inr (py ''hello world'') \<and>
   assemble (yielding []) = Inr []"
  (is "?a \<and> ?j \<and> ?s \<and> ?e \<and> ?hw \<and> ?nil")
proof -
  have ?a by (rule assemble_yielding)
  moreover have ?j
  proof
    assume "segs \<noteq> []"
    then have "map segment_text segs \<noteq> []" by simp
    then have "py '' '' @ py_join (py '' '') (map segment_text segs) =
        concat (map (\<lambda>t. py '' '' @ t) (map segment_text segs))"
      by (rule py_join_concat)
    then show "py '' '' @ py_join (py '' '') (map segment_text segs) =
        concat (map (\<lambda>seg. py '' '' @ segment_text seg) segs)"
      by (simp add: comp_def)
  qed
  moreover have ?s by (rule py_strip_decompose)
  moreover have ?e using py_strip_ends by blast
  moreover have ?hw by (simp add: assemble_eval)
  moreover have ?nil by (simp add: assemble_def py_strip_def)
  ultimately show ?thesis by blast
qed

theorem assemble_joins_and_strips_witness:
  "[\<lparr>segment_text = py '' hello ''\<rparr>, \<lparr>segment_text = py ''world ''\<rparr>] \<noteq> [] \<and>
   assemble (yielding [\<lparr>segment_text = py '' hello ''\<rparr>, \<lparr>segment_text = py ''world ''\<rparr>]) =
     Inr (py ''hello  world'') \<and>
   py '' '' @ py_join (py '' '') (map segment_text
       [\<lparr>segment_text = py '' hello ''\<rparr>, \<lparr>segment_text = py ''world ''\<rparr>]) =
     py ''  hello  world '' \<and>
   py_strip (py_join (py '' '') (map segment_text
       [\<lparr>segment_text = py '' hello ''\<rparr>, \<lparr>segment_text = py ''world ''\<rparr>])) \<noteq> [] \<and>
   \<not> py_isspace (hd (py_strip (py_join (py '' '') (map segment_text
       [\<lparr>segment_text = py '' hello ''\<rparr>, \<lparr>segment_text = py ''world ''\<rparr>])))) \<and>
   \<not> py_isspace (last (py_strip (py_join (py '' '') (map segment_text
       [\<lparr>segment_text = py '' hello ''\<rparr>, \<lparr>segment_text = py ''world ''\<rparr>]))))"
  (is "?S \<noteq> [] \<and> assemble (yielding ?S) = ?r \<and> ?sp @ ?J = ?c \<and> ?T \<noteq> [] \<and> ?h \<and> ?l")
proof -
  note t = assemble_joins_and_strips [where segs = ?S]
  have ne: "?S \<noteq> []" by simp
  have st: "?T = py ''hello  world''"
    by (simp add: assemble_eval)
  then have tne: "?T \<noteq> []"
    by (simp add: py_def)
  from t have "assemble (yielding ?S) = Inr ?T" by blast
  with st have a: "assemble (yielding ?S) = ?r" by simp
  from t ne have "?sp @ ?J = concat (map (\<lambda>seg. ?sp @ segment_text seg) ?S)" by blast
  then have j: "?sp @ ?J = ?c" by (simp add: py_def)
  from t tne have "?h \<and> ?l" by blast
  with ne a j tne show ?thesis by blast
qed

section \<open>The process across requests\<close>

lemma serve_eq: "serve s rs = (map (\<lambda>r. fst (handle s r)) rs, s)"
proof (induction rs)
  case Nil
  show ?case by simp
next
  case (Cons r rs)
  obtain resp where h: "handle s r = (resp, s)"
    by (cases r) simp_all
  show ?case by (simp add: h Cons)
qed

text \<open>
  Claim C8. \<open>health\<close> returns \<open>status = "ok"\<close> with the model size and the device that
  were configured at startup. It has no failing branch, it leaves the process state as
  it is, and so does every transcription request, failed or not: after any run of
  requests the answer of \<open>health\<close> is the same, and every \<open>GetHealth\<close> inside a run gets
  that answer.
\<close>

theorem health_unaffected_by_requests:
  "health s = [''status'' \<mapsto> Str (py ''ok''), ''model'' \<mapsto> Str (model_size s),
               ''device'' \<mapsto> Str (device s)] \<and>
   snd (serve s rs) = s \<and>
   health (snd (serve s rs)) = health s \<and>
   (\<forall>i < length rs. rs ! i = GetHealth \<longrightarrow>
      fst (serve s rs) ! i =
        [''status'' \<mapsto> Str (py ''ok''), ''model'' \<mapsto> Str (model_size s),
         ''device'' \<mapsto> Str (device s)]) \<and>
   (\<forall>env WhisperModel. startup env WhisperModel = Inr s \<longrightarrow>
      model_size s = getenv env ''MODEL_SIZE'' (py ''base'') \<and>
      device s = getenv env ''DEVICE'' (py ''cpu''))"
  (is "?h \<and> ?st \<and> ?h' \<and> ?run \<and> ?cfg")
proof -
  have ?h by (simp add: health_def)
  moreover have ?st by (simp add: serve_eq)
  moreover have ?h' by (simp add: serve_eq)
  moreover have ?run by (simp add: serve_eq health_def)
  moreover have ?cfg
  proof (intro allI impI)
    fix env WhisperModel
    assume "startup env WhisperModel = Inr s"
    then obtain m where
      "s = \<lparr>model_size = getenv env ''MODEL_SIZE'' (py ''base''),
            device = getenv env ''DEVICE'' (py ''cpu''),
            compute_type = getenv env ''COMPUTE_TYPE'' (py ''int8''), model = m\<rparr>"
      by (auto simp: startup_def Let_def split: sum.splits)
    then show "model_size s = getenv env ''MODEL_SIZE'' (py ''base'') \<and>
      device s = getenv env ''DEVICE'' (py ''cpu'')"
      by simp
  qed
  ultimately show ?thesis by blast
qed

theorem health_unaffected_by_requests_witness:
  "startup [''MODEL_SIZE'' \<mapsto> py ''small'']
     (\<lambda>ms dv ct. Inr (\<lambda>samples kw. Inl (PyException ''RuntimeError'' (py ''device fault'')))) =
     Inr \<lparr>model_size = py ''small'', device = py ''cpu'', compute_type = py ''int8'',
          model = \<lambda>samples kw. Inl (PyException ''RuntimeError'' (py ''device fault''))\<rparr> \<and>
   model_size
     \<lparr>model_size = py ''small'', device = py ''cpu'', compute_type = py ''int8'',
      model = \<lambda>samples kw. Inl (PyException ''RuntimeError'' (py ''device fault''))\<rparr> =
     getenv [''MODEL_SIZE'' \<mapsto> py ''small''] ''MODEL_SIZE'' (py ''base'') \<and>
   (2 :: nat) < length [PostTranscribe [1], PostTranscribe [0, 128], GetHealth] \<and>
   [PostTranscribe [1], PostTranscribe [0, 128], GetHealth] ! 2 = GetHealth \<and>
   fst (serve
     \<lparr>model_size = py ''small'', device = py ''cpu'', compute_type = py ''int8'',
      model = \<lambda>samples kw. Inl (PyException ''RuntimeError'' (py ''device fault''))\<rparr>
     [PostTranscribe [1], PostTranscribe [0, 128], GetHealth]) ! 2 =
     [''status'' \<mapsto> Str (py ''ok''), ''model'' \<mapsto> Str (py ''small''),
      ''device'' \<mapsto> Str (py ''cpu'')]"
  (is "startup ?env ?ctor = Inr ?s \<and> ?ms \<and> 2 < length ?rs \<and> ?r \<and>
       fst (serve ?s ?rs) ! 2 = ?h")
proof -
  have st: "startup ?env ?ctor = Inr ?s" by (simp add: startup_def getenv_def)
  have r: ?r by simp
  have l: "2 < length ?rs" by simp
  note t = health_unaffected_by_requests [where s = ?s and rs = ?rs]
  from t have "\<forall>env WhisperModel. startup env WhisperModel = Inr ?s \<longrightarrow>
      model_size ?s = getenv env ''MODEL_SIZE'' (py ''base'') \<and>
      device ?s = getenv env ''DEVICE'' (py ''cpu'')"
    by blast
  from this [rule_format, OF st] have ms: ?ms
    by (rule conjunct1)
  from t have "\<forall>i < length ?rs. ?rs ! i = GetHealth \<longrightarrow>
      fst (serve ?s ?rs) ! i =
        [''status'' \<mapsto> Str (py ''ok''), ''model'' \<mapsto> Str (model_size ?s),
         ''device'' \<mapsto> Str (device ?s)]"
    by blast
  from this [rule_format, OF l r] have "fst (serve ?s ?rs) ! 2 = ?h"
    by simp
  with st ms l r show ?thesis by blast
qed

text \<open>
  Claim C10. With the resident model a fixed function, two transcription requests with
  the same body, anywhere in a run of requests, get the same answer: the one the handler
  gives for that body on its own.
\<close>

theorem transcribe_retains_no_state:
  assumes "i < length rs" and "j < length rs"
    and "rs ! i = PostTranscribe audio_data" and "rs ! j = PostTranscribe audio_data"
  shows "fst (serve s rs) ! i = fst (serve s rs) ! j \<and>
         fst (serve s rs) ! i = fst (transcribe (model s) audio_data)"
  using assms by (simp add: serve_eq)

theorem transcribe_retains_no_state_witness:
  "(0 :: nat) < length [PostTranscribe [0, 128], GetHealth, PostTranscribe [1], PostTranscribe [0, 128]] \<and>
   (3 :: nat) < length [PostTranscribe [0, 128], GetHealth, PostTranscribe [1], PostTranscribe [0, 128]] \<and>
   [PostTranscribe [0, 128], GetHealth, PostTranscribe [1], PostTranscribe [0, 128]] ! 0 =
     PostTranscribe [0, 128] \<and>
   [PostTranscribe [0, 128], GetHealth, PostTranscribe [1], PostTranscribe [0, 128]] ! 3 =
     PostTranscribe [0, 128] \<and>
   fst (serve
     \<lparr>model_size = py ''base'', device = py ''cpu'', compute_type = py ''int8'',
      model = \<lambda>samples kw. Inr (Yield \<lparr>segment_text = py ''hi''\<rparr> Stop,
                                  \<lparr>language = py ''en'', language_probability = 1\<rparr>)\<rparr>
     [PostTranscribe [0, 128], GetHealth, PostTranscribe [1], PostTranscribe [0, 128]]) ! 0 =
   fst (serve
     \<lparr>model_size = py ''base'', device = py ''cpu'', compute_type = py ''int8'',
      model = \<lambda>samples kw. Inr (Yield \<lparr>segment_text = py ''hi''\<rparr> Stop,
                                  \<lparr>language = py ''en'', language_probability = 1\<rparr>)\<rparr>
     [PostTranscribe [0, 128], GetHealth, PostTranscribe [1], PostTranscribe [0, 128]]) ! 3 \<and>
   fst (serve
     \<lparr>model_size = py ''base'', device = py ''cpu'', compute_type = py ''int8'',
      model = \<lambda>samples kw. Inr (Yield \<lparr>segment_text = py ''hi''\<rparr> Stop,
                                  \<lparr>language = py ''en'', language_probability = 1\<rparr>)\<rparr>
     [PostTranscribe [0, 128], GetHealth, PostTranscribe [1], PostTranscribe [0, 128]]) ! 3 =
   [''text'' \<mapsto> Str (py ''hi''), ''is_final'' \<mapsto> Bool True,
    ''language'' \<mapsto> Str (py ''en''), ''language_probability'' \<mapsto> Float 1]"
  (is "?i \<and> ?j \<and> ?ri \<and> ?rj \<and> fst (serve ?s ?rs) ! 0 = fst (serve ?s ?rs) ! 3 \<and>
       fst (serve ?s ?rs) ! 3 = ?resp")
proof -
  have i: ?i and j: ?j and ri: ?ri and rj: ?rj by simp_all
  have d: "decode [0, 128] = Inr [- 1]"
    by (simp add: decode_eval del: of_int_sint)
  have a: "assemble (Yield \<lparr>segment_text = py ''hi''\<rparr> Stop) = Inr (py ''hi'')"
    by (simp add: assemble_eval)
  have t: "fst (transcribe (model ?s) [0, 128]) = ?resp"
    by (simp add: transcribe_def try_body_def d a)
  from transcribe_retains_no_state [where s = ?s, OF i j ri rj]
  have "fst (serve ?s ?rs) ! 0 = fst (serve ?s ?rs) ! 3"
    and "fst (serve ?s ?rs) ! 0 = fst (transcribe (model ?s) [0, 128])"
    by blast+
  with t have "fst (serve ?s ?rs) ! 0 = fst (serve ?s ?rs) ! 3 \<and> fst (serve ?s ?rs) ! 3 = ?resp"
    by (simp only: simp_thms)
  with i j ri rj show ?thesis by blast
qed

end
